theory Spec2Isabelle
  imports Complex_Main "HOL-Library.Sublist"
begin

section \<open>Data staleness levels (app/services/data\_staleness\_service.py)\<close>

text \<open>
  \<^verbatim>\<open>DataStalenessLevel\<close> is a string enum with four members. The service keeps, per data
  type, one threshold (in days) for each of the three non-fresh levels.
\<close>

datatype DataStalenessLevel = FRESH | WARNING | STALE | CRITICAL

record threshold_set =
  th_warning :: int
  th_stale :: int
  th_critical :: int

definition fuel_price_thresholds :: threshold_set where
  "fuel_price_thresholds = \<lparr>th_warning = 15, th_stale = 30, th_critical = 60\<rparr>"

definition toll_thresholds :: threshold_set where
  "toll_thresholds = \<lparr>th_warning = 90, th_stale = 180, th_critical = 365\<rparr>"

text \<open>The dictionary \<^verbatim>\<open>self.thresholds\<close> built in \<^verbatim>\<open>__init__\<close>.\<close>

definition thresholds :: "string \<rightharpoonup> threshold_set" where
  "thresholds = [''fuel_price'' \<mapsto> fuel_price_thresholds, ''toll'' \<mapsto> toll_thresholds]"

text \<open>
  \<^verbatim>\<open>_get_staleness_level\<close>: the table of the data type, the fuel-price table for an
  unknown data type (\<^verbatim>\<open>dict.get\<close> with a default), then the chain of comparisons from
  the most severe level down.
\<close>

definition get_staleness_level :: "string \<Rightarrow> int \<Rightarrow> DataStalenessLevel" where
  "get_staleness_level data_type days_old =
     (let th = (case thresholds data_type of Some t \<Rightarrow> t | None \<Rightarrow> fuel_price_thresholds)
      in if days_old \<ge> th_critical th then CRITICAL
         else if days_old \<ge> th_stale th then STALE
         else if days_old \<ge> th_warning th then WARNING
         else FRESH)"


section \<open>Permissions (app/auth/permissions.py)\<close>

text \<open>The members of the \<^verbatim>\<open>Permission\<close> enum, in the order of the class body.\<close>

datatype Permission =
    CREATE_USER | READ_USER | UPDATE_USER | DELETE_USER
  | CREATE_COMPANY | READ_COMPANY | UPDATE_COMPANY | DELETE_COMPANY
  | CREATE_VEHICLE | READ_VEHICLE | UPDATE_VEHICLE | DELETE_VEHICLE
  | CALCULATE_ROUTE | READ_ROUTE | DELETE_ROUTE
  | CREATE_FUEL_PRICE | READ_FUEL_PRICE | UPDATE_FUEL_PRICE | DELETE_FUEL_PRICE
  | CREATE_TOLL | READ_TOLL | UPDATE_TOLL | DELETE_TOLL
  | GENERATE_REPORT
  | ADMIN_PANEL | VIEW_SYSTEM_STATS | MANAGE_SYSTEM_DATA

text \<open>\<^verbatim>\<open>UserRole\<close> of app/models/user.py.\<close>

datatype UserRole = ADMIN | OPERATOR

text \<open>Iterating the enum class (\<^verbatim>\<open>list(Permission)\<close>) yields the members in definition order.\<close>

definition all_permissions :: "Permission list" where
  "all_permissions =
     [CREATE_USER, READ_USER, UPDATE_USER, DELETE_USER,
      CREATE_COMPANY, READ_COMPANY, UPDATE_COMPANY, DELETE_COMPANY,
      CREATE_VEHICLE, READ_VEHICLE, UPDATE_VEHICLE, DELETE_VEHICLE,
      CALCULATE_ROUTE, READ_ROUTE, DELETE_ROUTE,
      CREATE_FUEL_PRICE, READ_FUEL_PRICE, UPDATE_FUEL_PRICE, DELETE_FUEL_PRICE,
      CREATE_TOLL, READ_TOLL, UPDATE_TOLL, DELETE_TOLL,
      GENERATE_REPORT,
      ADMIN_PANEL, VIEW_SYSTEM_STATS, MANAGE_SYSTEM_DATA]"

definition admin_permissions :: "Permission set" where
  "admin_permissions =
     {CREATE_USER, READ_USER, UPDATE_USER, DELETE_USER,
      CREATE_COMPANY, READ_COMPANY, UPDATE_COMPANY, DELETE_COMPANY,
      CREATE_VEHICLE, READ_VEHICLE, UPDATE_VEHICLE, DELETE_VEHICLE,
      CALCULATE_ROUTE, READ_ROUTE, DELETE_ROUTE,
      CREATE_FUEL_PRICE, READ_FUEL_PRICE, UPDATE_FUEL_PRICE, DELETE_FUEL_PRICE,
      CREATE_TOLL, READ_TOLL, UPDATE_TOLL, DELETE_TOLL,
      GENERATE_REPORT,
      ADMIN_PANEL, VIEW_SYSTEM_STATS, MANAGE_SYSTEM_DATA}"

definition operator_permissions :: "Permission set" where
  "operator_permissions =
     {READ_USER, UPDATE_USER, READ_COMPANY,
      CREATE_VEHICLE, READ_VEHICLE, UPDATE_VEHICLE, DELETE_VEHICLE,
      CALCULATE_ROUTE, READ_ROUTE,
      READ_FUEL_PRICE, READ_TOLL, GENERATE_REPORT}"

text \<open>The dictionary \<^verbatim>\<open>ROLE_PERMISSIONS\<close>.\<close>

definition ROLE_PERMISSIONS :: "UserRole \<rightharpoonup> Permission set" where
  "ROLE_PERMISSIONS = [ADMIN \<mapsto> admin_permissions, OPERATOR \<mapsto> operator_permissions]"

definition get_user_permissions :: "UserRole \<Rightarrow> Permission set" where
  "get_user_permissions role = (case ROLE_PERMISSIONS role of Some ps \<Rightarrow> ps | None \<Rightarrow> {})"

definition has_permission :: "UserRole \<Rightarrow> Permission \<Rightarrow> bool" where
  "has_permission role permission = (permission \<in> get_user_permissions role)"


section \<open>Python string operations\<close>

text \<open>
  Strings are lists of 8-bit characters, read as the code points 0 to 255. On these,
  \<^verbatim>\<open>str.lower\<close> moves the capital letters A to Z and the capital letters of the upper
  half (192 to 222, without the multiplication sign 215) up by 32 and leaves every other
  character alone.
\<close>

definition py_lower_char :: "char \<Rightarrow> char" where
  "py_lower_char c =
     (let n = (of_char c :: nat)
      in if (65 \<le> n \<and> n \<le> 90) \<or> (192 \<le> n \<and> n \<le> 222 \<and> n \<noteq> 215)
         then char_of (n + 32) else c)"

definition py_lower :: "string \<Rightarrow> string" where
  "py_lower s = map py_lower_char s"

text \<open>The substring test \<^verbatim>\<open>sub in s\<close>: some suffix of \<open>s\<close> starts with \<open>sub\<close>.\<close>

fun py_in :: "string \<Rightarrow> string \<Rightarrow> bool" where
  "py_in sub [] = (sub = [])"
| "py_in sub (c # cs) = (prefix sub (c # cs) \<or> py_in sub cs)"

text \<open>
  \<^verbatim>\<open>str.strip()\<close> removes white space at both ends. The white-space characters among
  the code points 0 to 255 are 9 to 13, 28 to 32, 133 and 160.
\<close>

definition py_isspace :: "char \<Rightarrow> bool" where
  "py_isspace c =
     (let n = (of_char c :: nat)
      in (9 \<le> n \<and> n \<le> 13) \<or> (28 \<le> n \<and> n \<le> 32) \<or> n = 133 \<or> n = 160)"

definition py_strip :: "string \<Rightarrow> string" where
  "py_strip s = rev (dropWhile py_isspace (rev (dropWhile py_isspace s)))"

text \<open>
  \<^verbatim>\<open>str.upper\<close> on the code points 0 to 255: the small letters a to z and those of the
  upper half (224 to 254, without the division sign 247) move down by 32, and the sharp s
  (223) becomes the two letters SS. The capitals of the micro sign (181) and of y with
  diaeresis (255) lie beyond code point 255; the model leaves these two characters
  unchanged. Neither they nor their capitals are letters A to Z, digits, spaces or
  hyphens, so no test made by the validators below tells the difference.
\<close>

definition py_upper_char :: "char \<Rightarrow> string" where
  "py_upper_char c =
     (let n = (of_char c :: nat)
      in if 97 \<le> n \<and> n \<le> 122 then [char_of (n - 32)]
         else if n = 223 then ''SS''
         else if 224 \<le> n \<and> n \<le> 254 \<and> n \<noteq> 247 then [char_of (n - 32)]
         else [c])"

definition py_upper :: "string \<Rightarrow> string" where
  "py_upper s = concat (map py_upper_char s)"

text \<open>\<^verbatim>\<open>s.replace(ch, '')\<close> for a single character \<open>ch\<close>.\<close>

definition py_remove :: "char \<Rightarrow> string \<Rightarrow> string" where
  "py_remove ch s = filter (\<lambda>c. c \<noteq> ch) s"

text \<open>
  The regular-expression classes the validators use. On the code points 0 to 255,
  \<^verbatim>\<open>\d\<close> matches the ten digits 0 to 9 only, and \<^verbatim>\<open>\D\<close> every other character.
\<close>

definition is_digit :: "char \<Rightarrow> bool" where
  "is_digit c = (48 \<le> (of_char c :: nat) \<and> (of_char c :: nat) \<le> 57)"

datatype char_class = Upper_AZ | Digit

fun in_class :: "char_class \<Rightarrow> char \<Rightarrow> bool" where
  "in_class Upper_AZ c = (65 \<le> (of_char c :: nat) \<and> (of_char c :: nat) \<le> 90)"
| "in_class Digit c = is_digit c"

text \<open>
  A pattern of the form \<^verbatim>\<open>^c1 c2 ... cn$\<close>, each \<open>ci\<close> a character class, given to
  \<^verbatim>\<open>re.match\<close>. Without the multi-line flag, \<^verbatim>\<open>$\<close> matches at the end of the string
  and also just before a line feed that ends the string.
\<close>

definition exact_match :: "char_class list \<Rightarrow> string \<Rightarrow> bool" where
  "exact_match pat s = list_all2 in_class pat s"

definition re_match_anchored :: "char_class list \<Rightarrow> string \<Rightarrow> bool" where
  "re_match_anchored pat s =
     (exact_match pat s \<or> (s \<noteq> [] \<and> last s = CHR 0x0A \<and> exact_match pat (butlast s)))"


section \<open>The vehicle model (app/models/vehicle.py)\<close>

text \<open>
  Numbers. Python's \<^verbatim>\<open>float\<close> and \<^verbatim>\<open>Decimal\<close> values are modelled as real numbers and
  their operations as the exact ones: the theorems are about the arithmetic the code
  writes down, not about the rounding of a particular machine format.
\<close>

datatype FuelType = DIESEL_500 | DIESEL_PREMIUM | GASOLINE


text \<open>
  The columns of \<^verbatim>\<open>Vehicle\<close> that the modelled functions read: \<^verbatim>\<open>model\<close> (a string, not
  nullable), \<^verbatim>\<open>fuel_consumption\<close> (litres per 100 km), \<^verbatim>\<open>fuel_type\<close> and
  \<^verbatim>\<open>max_weight\<close> (a nullable integer, in kg).
\<close>

record vehicle =
  model :: string
  fuel_consumption :: real
  fuel_type :: FuelType
  max_weight :: "int option"



section \<open>Vehicle category (app/services/route\_optimization\_service.py)\<close>

text \<open>
  \<^verbatim>\<open>vehicle.max_weight and vehicle.max_weight > 3500\<close>: \<^verbatim>\<open>None\<close> and \<^verbatim>\<open>0\<close> are
  falsy, so the comparison is made for the other values only.
\<close>

definition get_vehicle_category :: "vehicle \<Rightarrow> string" where
  "get_vehicle_category v =
     (if (case max_weight v of None \<Rightarrow> False | Some w \<Rightarrow> w \<noteq> 0 \<and> w > 3500) then ''truck''
      else if py_in ''moto'' (py_lower (model v)) \<or> py_in ''scooter'' (py_lower (model v))
        then ''motorcycle''
      else ''car'')"

text \<open>
  What the specification calls containing a word case-insensitively, stated without
  \<^verbatim>\<open>lower\<close>: some contiguous part of the string spells the word, each letter in either
  case.
\<close>

definition ascii_upper :: "char \<Rightarrow> char" where
  "ascii_upper c = char_of (of_char c - (32::nat))"

definition contains_ignoring_case :: "string \<Rightarrow> string \<Rightarrow> bool" where
  "contains_ignoring_case pat s =
     (\<exists>u. sublist u s \<and> list_all2 (\<lambda>c d. c = d \<or> c = ascii_upper d) u pat)"


section \<open>Validators (app/validators/common\_validators.py)\<close>

text \<open>\<^verbatim>\<open>HTTPException(status_code, detail)\<close>, raised by every validator on rejection.\<close>

datatype http_error = HTTPException nat string

subsection \<open>Tax identifiers\<close>

text \<open>\<^verbatim>\<open>int(c)\<close> for a digit character \<open>c\<close>.\<close>

definition digit_value :: "char \<Rightarrow> int" where
  "digit_value c = int (of_char c) - 48"

definition multipliers :: "int list" where
  "multipliers = [5, 4, 3, 2, 7, 6, 5, 4, 3, 2]"

definition validate_cuit_algorithm :: "string \<Rightarrow> bool" where
  "validate_cuit_algorithm cuit =
     (if length cuit \<noteq> 11 then False
      else
        let total = sum_list (map (\<lambda>i. digit_value (cuit ! i) * multipliers ! i) [0..<10]);
            remainder = total mod 11;
            check_digit = (if remainder < 2 then remainder else 11 - remainder)
        in digit_value (cuit ! 10) = check_digit)"

text \<open>
  \<^verbatim>\<open>_validate_cuit_algorithm\<close> is called by \<^verbatim>\<open>validate_tax_id\<close> only, on a string from
  which every non-digit has been removed, so \<^verbatim>\<open>int\<close> cannot raise there.
\<close>

definition validate_tax_id :: "string \<Rightarrow> http_error + string" where
  "validate_tax_id tax_id =
     (if tax_id = [] \<or> py_strip tax_id = [] then
        Inl (HTTPException 400 ''Tax ID cannot be empty'')
      else
        let normalized = filter is_digit (py_strip tax_id)
        in if length normalized \<noteq> 11 then
             Inl (HTTPException 400 ''Tax ID (CUIT/CUIL) must be 11 digits'')
           else if \<not> validate_cuit_algorithm normalized then
             Inl (HTTPException 400 ''Invalid CUIT/CUIL format'')
           else
             Inr (take 2 normalized @ ''-'' @ take 8 (drop 2 normalized) @ ''-''
                  @ [normalized ! 10]))"




subsection \<open>License plates\<close>

definition plate_patterns :: "char_class list list" where
  "plate_patterns =
     [[Upper_AZ, Upper_AZ, Upper_AZ, Digit, Digit, Digit],
      [Upper_AZ, Upper_AZ, Digit, Digit, Digit, Upper_AZ, Upper_AZ],
      [Digit, Digit, Digit, Upper_AZ, Upper_AZ, Upper_AZ]]"

definition validate_license_plate :: "string \<Rightarrow> http_error + string" where
  "validate_license_plate license_plate =
     (if license_plate = [] \<or> py_strip license_plate = [] then
        Inl (HTTPException 400 ''License plate cannot be empty'')
      else
        let normalized = py_remove CHR ''-'' (py_remove CHR '' '' (py_upper (py_strip license_plate)))
        in if list_ex (\<lambda>pattern. re_match_anchored pattern normalized) plate_patterns
           then Inr normalized
           else Inl (HTTPException 400
             ''Invalid license plate format. Expected formats: ABC123, AB123CD, or 123ABC''))"


section \<open>Route optimization (app/services/route\_optimization\_service.py)\<close>

subsection \<open>Data classes\<close>

text \<open>
  The data classes of the service, with the fields the modelled functions read or write.
  Of the routing engine's \<^verbatim>\<open>Route\<close>, the distance (metres), the duration (seconds) and the
  geometry are kept. In \<^verbatim>\<open>OptimizedRoute\<close> the fields \<^verbatim>\<open>geometry\<close> and
  \<^verbatim>\<open>waypoints\<close> are left out: the first repeats the geometry of \<^verbatim>\<open>osrm_route\<close> and the
  second is the same for all routes of one request, so the field-wise equality of the data
  class (used by \<^verbatim>\<open>!=\<close> below) is the equality of these records.
\<close>

record fuel_cost_info =
  distance_km :: real
  fuel_consumption_per_100km :: real
  fuel_needed_liters :: real
  fuel_price_per_liter :: real
  total_fuel_cost :: real
  fuel_type_name :: string

record osrm_route =
  distance :: real
  duration :: real
  geometry :: string

record toll_info =
  toll_id :: string
  toll_name :: string
  cost :: real

record route_cost_breakdown =
  fuel_cost :: fuel_cost_info
  tolls :: "toll_info list"
  total_toll_cost :: real
  total_cost :: real
  savings_vs_fastest :: "real option"

record optimized_route =
  osrm_route :: osrm_route
  cost_breakdown :: route_cost_breakdown
  route_type :: string
  estimated_savings :: "real option"

record route_optimization_response =
  routes :: "optimized_route list"
  recommended_route :: optimized_route
  total_savings :: real
  warnings :: "string list"

text \<open>The Python exceptions the modelled services raise.\<close>

datatype py_error = ValueError string | RuntimeError string | TypeError

subsection \<open>Costs of one route\<close>



subsection \<open>Choosing the recommended route\<close>

text \<open>\<^verbatim>\<open>str(n)\<close> for a natural number: its decimal digits.\<close>

fun string_of_nat :: "nat \<Rightarrow> string" where
  "string_of_nat n =
     (if n < 10 then [char_of (48 + n)]
      else string_of_nat (n div 10) @ [char_of (48 + n mod 10)])"

text \<open>
  \<^verbatim>\<open>min(xs, key=key)\<close> walks the list from the left and keeps the first element whose key
  is smallest; \<open>py_min_index\<close> is the position of that element (the list is not empty
  where it is called).
\<close>

fun min_from :: "('a \<Rightarrow> real) \<Rightarrow> nat \<Rightarrow> real \<Rightarrow> nat \<Rightarrow> 'a list \<Rightarrow> nat" where
  "min_from key best best_key i [] = best"
| "min_from key best best_key i (x # xs) =
     (if key x < best_key then min_from key i (key x) (Suc i) xs
      else min_from key best best_key (Suc i) xs)"

definition py_min_index :: "('a \<Rightarrow> real) \<Rightarrow> 'a list \<Rightarrow> nat" where
  "py_min_index key xs = (case xs of [] \<Rightarrow> 0 | x # rest \<Rightarrow> min_from key 0 (key x) 1 rest)"












section \<open>Route comparison (app/services/route\_comparison\_service.py)\<close>

subsection \<open>Data classes\<close>

datatype OptimizationCriteria = TOTAL_COST | FUEL_COST | TIME | DISTANCE | TOLL_AVOIDANCE | BALANCED

datatype RouteRanking = BEST | GOOD | ACCEPTABLE | POOR

record route_score =
  total_score :: real
  cost_score :: real
  time_score :: real
  distance_score :: real
  toll_score :: real
  ranking :: RouteRanking

record route_comparison =
  route_a_id :: string
  route_b_id :: string
  cost_difference :: real
  time_difference :: real
  distance_difference :: real
  toll_difference :: real
  recommendation :: string
  confidence :: real

record savings_analysis =
  recommended_route_id :: string
  baseline_route_id :: string
  absolute_savings :: real
  percentage_savings :: real
  time_trade_off :: real
  distance_trade_off :: real
  savings_per_minute :: real
  savings_per_km :: real

text \<open>
  \<^verbatim>\<open>OptimizationSummary\<close>. The dictionary of scores is the list of its items in insertion
  order, the key of the route at position \<open>i\<close> being route\_i. The two lists of texts
  (insights and warnings) are left out: they are built after the savings analysis, from
  comparisons and formatting only.
\<close>

record optimization_summary =
  total_routes_analyzed :: nat
  summary_recommended_route :: optimized_route
  route_scores :: "(string \<times> route_score) list"
  route_comparisons :: "route_comparison list"
  summary_savings_analysis :: savings_analysis

text \<open>
  The three keys of the \<^verbatim>\<open>user_preferences\<close> dictionary that the service looks up, each
  as the truth value of \<^verbatim>\<open>user_preferences.get(key)\<close>.
\<close>

record user_preferences =
  prioritize_cost :: bool
  prioritize_time :: bool
  avoid_tolls :: bool

record weight_set =
  w_cost :: real
  w_time :: real
  w_distance :: real
  w_toll :: real

subsection \<open>Scoring\<close>

definition normalize_score :: "real \<Rightarrow> real \<Rightarrow> real \<Rightarrow> real" where
  "normalize_score val min_val max_val =
     (if max_val = min_val then 0 else (val - min_val) / (max_val - min_val))"

fun default_weights :: "OptimizationCriteria \<Rightarrow> weight_set" where
  "default_weights TOTAL_COST = \<lparr>w_cost = 0.6, w_time = 0.2, w_distance = 0.1, w_toll = 0.1\<rparr>"
| "default_weights FUEL_COST = \<lparr>w_cost = 0.7, w_time = 0.2, w_distance = 0.1, w_toll = 0.0\<rparr>"
| "default_weights TIME = \<lparr>w_cost = 0.2, w_time = 0.6, w_distance = 0.1, w_toll = 0.1\<rparr>"
| "default_weights DISTANCE = \<lparr>w_cost = 0.2, w_time = 0.2, w_distance = 0.6, w_toll = 0.0\<rparr>"
| "default_weights TOLL_AVOIDANCE = \<lparr>w_cost = 0.2, w_time = 0.2, w_distance = 0.1, w_toll = 0.5\<rparr>"
| "default_weights BALANCED = \<lparr>w_cost = 0.3, w_time = 0.3, w_distance = 0.2, w_toll = 0.2\<rparr>"

definition calculate_weighted_score ::
  "real \<Rightarrow> real \<Rightarrow> real \<Rightarrow> real \<Rightarrow> OptimizationCriteria \<Rightarrow> user_preferences \<Rightarrow> real" where
  "calculate_weighted_score cost_s time_s distance_s toll_s criteria prefs =
     (let w0 = default_weights criteria;
          w1 = (if prioritize_cost prefs
                then w0\<lparr>w_cost := w_cost w0 + 0.1, w_time := w_time w0 - 0.05,
                        w_distance := w_distance w0 - 0.05\<rparr>
                else w0);
          w2 = (if prioritize_time prefs
                then w1\<lparr>w_time := w_time w1 + 0.1, w_cost := w_cost w1 - 0.05,
                        w_distance := w_distance w1 - 0.05\<rparr>
                else w1);
          w3 = (if avoid_tolls prefs
                then w2\<lparr>w_toll := w_toll w2 + 0.2, w_cost := w_cost w2 - 0.1,
                        w_time := w_time w2 - 0.1\<rparr>
                else w2)
      in cost_s * w_cost w3 + time_s * w_time w3 + distance_s * w_distance w3
         + toll_s * w_toll w3)"

definition determine_ranking :: "real \<Rightarrow> RouteRanking" where
  "determine_ranking score =
     (if score \<le> 0.25 then BEST
      else if score \<le> 0.5 then GOOD
      else if score \<le> 0.75 then ACCEPTABLE
      else POOR)"

text \<open>\<^verbatim>\<open>min\<close> and \<^verbatim>\<open>max\<close> of a non-empty list of numbers.\<close>

definition py_min :: "real list \<Rightarrow> real" where
  "py_min xs = xs ! py_min_index (\<lambda>x. x) xs"

definition py_max :: "real list \<Rightarrow> real" where
  "py_max xs = xs ! py_min_index (\<lambda>x. - x) xs"

definition score_routes ::
  "optimized_route list \<Rightarrow> OptimizationCriteria \<Rightarrow> user_preferences
   \<Rightarrow> (string \<times> route_score) list" where
  "score_routes rs criteria prefs =
     (let costs = map (\<lambda>r. total_cost (cost_breakdown r)) rs;
          times = map (\<lambda>r. duration (osrm_route r) / 60) rs;
          distances = map (\<lambda>r. distance (osrm_route r) / 1000) rs;
          toll_costs = map (\<lambda>r. total_toll_cost (cost_breakdown r)) rs
      in map (\<lambda>i.
            let cost_s = normalize_score (costs ! i) (py_min costs) (py_max costs);
                time_s = normalize_score (times ! i) (py_min times) (py_max times);
                distance_s = normalize_score (distances ! i) (py_min distances) (py_max distances);
                toll_s = normalize_score (toll_costs ! i) (py_min toll_costs) (py_max toll_costs);
                total = calculate_weighted_score cost_s time_s distance_s toll_s criteria prefs
            in (''route_'' @ string_of_nat i,
                \<lparr>total_score = total, cost_score = cost_s, time_score = time_s,
                 distance_score = distance_s, toll_score = toll_s,
                 ranking = determine_ranking total\<rparr>))
          [0..<length rs])"

text \<open>
  \<^verbatim>\<open>_select_recommended_route\<close>: the first key with the least total score; the number in
  the key is the position of the route, which is relabelled in place.
\<close>

definition select_recommended_route ::
  "optimized_route list \<Rightarrow> (string \<times> route_score) list \<Rightarrow> nat \<times> optimized_route list" where
  "select_recommended_route rs scores =
     (let best_route_index = py_min_index (\<lambda>kv. total_score (snd kv)) scores
      in (best_route_index,
          rs[best_route_index := (rs ! best_route_index)\<lparr>route_type := ''recommended''\<rparr>]))"

subsection \<open>Pairwise comparisons\<close>

definition compare_two_routes ::
  "optimized_route \<Rightarrow> optimized_route \<Rightarrow> string \<Rightarrow> string \<Rightarrow> route_comparison" where
  "compare_two_routes route_a route_b a_id b_id =
     (let cost_diff = total_cost (cost_breakdown route_b) - total_cost (cost_breakdown route_a);
          time_diff = (duration (osrm_route route_b) - duration (osrm_route route_a)) / 60;
          distance_diff = (distance (osrm_route route_b) - distance (osrm_route route_a)) / 1000;
          toll_diff = total_toll_cost (cost_breakdown route_b)
                      - total_toll_cost (cost_breakdown route_a);
          (rec, conf) =
            (if \<bar>cost_diff\<bar> < 10 then
               (if time_diff < - 5 then (b_id @ '' is faster with similar cost'', 0.8)
                else if time_diff > 5 then (a_id @ '' is faster with similar cost'', 0.8)
                else (''Routes are very similar'', 0.6))
             else if cost_diff < 0 then
               (if time_diff > 30 then (a_id @ '' is cheaper but much slower'', 0.7)
                else (a_id @ '' is more cost-effective'', 0.9))
             else
               (if time_diff < - 30 then (b_id @ '' is cheaper and faster'', 0.95)
                else (b_id @ '' is more cost-effective'', 0.9)))
      in \<lparr>route_a_id = a_id, route_b_id = b_id, cost_difference = cost_diff,
          time_difference = time_diff, distance_difference = distance_diff,
          toll_difference = toll_diff, recommendation = rec, confidence = conf\<rparr>)"

definition generate_route_comparisons :: "optimized_route list \<Rightarrow> route_comparison list" where
  "generate_route_comparisons rs =
     concat (map (\<lambda>i. map (\<lambda>j. compare_two_routes (rs ! i) (rs ! j)
                                (''route_'' @ string_of_nat i) (''route_'' @ string_of_nat j))
                        [Suc i..<length rs])
                 [0..<length rs])"

subsection \<open>Savings analysis\<close>

text \<open>
  The costs are \<^verbatim>\<open>Decimal\<close> values and the trade-offs are \<^verbatim>\<open>float\<close> values (the result of
  \<^verbatim>\<open>/\<close>). \<^verbatim>\<open>max(abs(x), 1)\<close> returns its first argument unless the second is greater, so
  it is the integer 1 when \<open>\<bar>x\<bar> < 1\<close> and the float \<open>\<bar>x\<bar>\<close> otherwise. Dividing a
  \<^verbatim>\<open>Decimal\<close> by an integer gives a \<^verbatim>\<open>Decimal\<close>; dividing it by a float raises
  \<^verbatim>\<open>TypeError\<close>.
\<close>

datatype py_number = PyInt int | PyFloat real

definition max_abs_or_one :: "real \<Rightarrow> py_number" where
  "max_abs_or_one x = (if 1 > \<bar>x\<bar> then PyInt 1 else PyFloat \<bar>x\<bar>)"

definition decimal_div :: "real \<Rightarrow> py_number \<Rightarrow> py_error + real" where
  "decimal_div d n =
     (case n of
        PyFloat f \<Rightarrow> Inl TypeError
      | PyInt i \<Rightarrow> if i = 0 then Inl (ValueError ''division by zero'') else Inr (d / real_of_int i))"

text \<open>
  \<^verbatim>\<open>_analyze_savings\<close>. The baseline is the first route, or, when the recommended route
  equals it, the first route of greatest total cost.
\<close>

definition analyze_savings ::
  "optimized_route list \<Rightarrow> optimized_route \<Rightarrow> py_error + savings_analysis" where
  "analyze_savings rs recommended =
     (let fastest = rs ! 0;
          baseline = (if recommended = fastest
                      then rs ! py_min_index (\<lambda>r. - total_cost (cost_breakdown r)) rs
                      else fastest);
          abs_savings = total_cost (cost_breakdown baseline) - total_cost (cost_breakdown recommended);
          pct = (if total_cost (cost_breakdown baseline) > 0
                 then (abs_savings / total_cost (cost_breakdown baseline)) * 100 else 0);
          time_to = (duration (osrm_route recommended) - duration (osrm_route baseline)) / 60;
          dist_to = (distance (osrm_route recommended) - distance (osrm_route baseline)) / 1000
      in case (if time_to \<noteq> 0 then decimal_div abs_savings (max_abs_or_one time_to) else Inr 0) of
           Inl e \<Rightarrow> Inl e
         | Inr per_minute \<Rightarrow>
             (case (if dist_to \<noteq> 0 then decimal_div abs_savings (max_abs_or_one dist_to) else Inr 0) of
                Inl e \<Rightarrow> Inl e
              | Inr per_km \<Rightarrow>
                  Inr \<lparr>recommended_route_id = ''recommended'', baseline_route_id = ''baseline'',
                       absolute_savings = abs_savings, percentage_savings = pct,
                       time_trade_off = time_to, distance_trade_off = dist_to,
                       savings_per_minute = per_minute, savings_per_km = per_km\<rparr>))"

subsection \<open>The analysis\<close>

definition analyze_routes ::
  "optimized_route list \<Rightarrow> OptimizationCriteria \<Rightarrow> user_preferences
   \<Rightarrow> py_error + optimization_summary" where
  "analyze_routes rs criteria prefs =
     (if rs = [] then Inl (ValueError ''No routes provided for analysis'')
      else
        let scores = score_routes rs criteria prefs;
            (best, rs') = select_recommended_route rs scores;
            comparisons = generate_route_comparisons rs'
        in case analyze_savings rs' (rs' ! best) of
             Inl e \<Rightarrow> Inl e
           | Inr savings \<Rightarrow>
               Inr \<lparr>total_routes_analyzed = length rs', summary_recommended_route = rs' ! best,
                    route_scores = scores, route_comparisons = comparisons,
                    summary_savings_analysis = savings\<rparr>)"

text \<open>
  The three routes of the fixture \<^verbatim>\<open>mock_routes\<close> in tests/test\_route\_comparison\_service.py.
  The attributes the fixture leaves to the mock object are not read by the analysis; they
  are filled with zeros and empty strings.
\<close>

definition mock_route :: "real \<Rightarrow> real \<Rightarrow> real \<Rightarrow> real \<Rightarrow> real \<Rightarrow> string \<Rightarrow> optimized_route" where
  "mock_route meters seconds total_c fuel_c toll_c label =
     \<lparr>osrm_route = \<lparr>distance = meters, duration = seconds, geometry = ''''\<rparr>,
      cost_breakdown =
        \<lparr>fuel_cost = \<lparr>distance_km = meters / 1000, fuel_consumption_per_100km = 0,
                       fuel_needed_liters = 0, fuel_price_per_liter = 0,
                       total_fuel_cost = fuel_c, fuel_type_name = ''''\<rparr>,
         tolls = [], total_toll_cost = toll_c, total_cost = total_c, savings_vs_fastest = None\<rparr>,
      route_type = label, estimated_savings = None\<rparr>"

definition mock_routes :: "optimized_route list" where
  "mock_routes =
     [mock_route 100000 3600 1000 800 200 ''fastest'',
      mock_route 120000 4800 900 900 0 ''alternative'',
      mock_route 150000 6000 1200 1100 100 ''scenic'']"


section \<open>Rate limiting (app/middleware/rate\_limit\_middleware.py)\<close>

text \<open>
  The state of the middleware: for every client address and for every user id a queue of
  time stamps (\<^verbatim>\<open>defaultdict(deque)\<close>: a key never seen has the empty queue). Time stamps
  are the values of \<^verbatim>\<open>time.time()\<close>, modelled as real numbers. The limit
  \<^verbatim>\<open>requests_per_minute\<close> is a number of requests, a natural number.
\<close>

record limiter_state =
  ip_requests :: "string \<Rightarrow> real list"
  user_requests :: "string \<Rightarrow> real list"

definition initial_state :: limiter_state where
  "initial_state = \<lparr>ip_requests = (\<lambda>k. []), user_requests = (\<lambda>k. [])\<rparr>"

definition window_size :: real where
  "window_size = 60"

definition excluded_paths :: "string list" where
  "excluded_paths = [''/health'', ''/docs'', ''/redoc'', ''/openapi.json'']"

text \<open>\<^verbatim>\<open>_clean_old_requests\<close>: pop from the left while the head is older than the window.\<close>

definition clean_old_requests :: "real list \<Rightarrow> real \<Rightarrow> real list" where
  "clean_old_requests request_queue current_time =
     dropWhile (\<lambda>t. current_time - t > window_size) request_queue"

text \<open>
  \<^verbatim>\<open>_is_rate_limited\<close> returns whether the identifier is over its limit, and changes the
  queue in place; the model returns the new queue as well.
\<close>

definition is_rate_limited :: "nat \<Rightarrow> real list \<Rightarrow> real \<Rightarrow> bool \<times> real list" where
  "is_rate_limited requests_per_minute request_queue current_time =
     (let q = clean_old_requests request_queue current_time
      in if length q \<ge> requests_per_minute then (True, q)
         else (False, q @ [current_time]))"

text \<open>
  What \<^verbatim>\<open>dispatch\<close> reads of a request: the path, the client address, the user id that
  the authentication middleware may have stored on the request state, and the clock at the
  moment of the call.
\<close>

record request =
  path :: string
  client_ip :: string
  user_id :: "string option"
  arrival :: real

text \<open>
  The outcomes of \<^verbatim>\<open>dispatch\<close>: the request is passed on (and, on a rate-limited path, the
  response gets the three \<^verbatim>\<open>X-RateLimit\<close> headers), or a JSON response with a status
  code, a detail text and a \<^verbatim>\<open>Retry-After\<close> header is returned at once.
\<close>

record rate_limit_headers =
  x_limit :: nat
  x_remaining :: nat
  x_reset :: int

datatype response =
    Forwarded "rate_limit_headers option"
  | TooManyRequests nat string string

text \<open>\<^verbatim>\<open>any(request.url.path.startswith(path) for path in self.excluded_paths)\<close>.\<close>

definition is_excluded :: "string \<Rightarrow> bool" where
  "is_excluded p = list_ex (\<lambda>e. prefix e p) excluded_paths"

text \<open>\<^verbatim>\<open>int(x)\<close> for a float: rounding towards zero.\<close>

definition py_int :: "real \<Rightarrow> int" where
  "py_int x = (if x \<ge> 0 then \<lfloor>x\<rfloor> else \<lceil>x\<rceil>)"

text \<open>
  \<^verbatim>\<open>dispatch\<close>. The user id counts when it is truthy, that is present and not the empty
  string. The check of the client address comes first and records the time stamp before
  the check of the user is made.
\<close>

definition dispatch :: "nat \<Rightarrow> limiter_state \<Rightarrow> request \<Rightarrow> response \<times> limiter_state" where
  "dispatch requests_per_minute s r =
     (if is_excluded (path r) then (Forwarded None, s)
      else
        let current_time = arrival r;
            ip = client_ip r;
            (ip_limited, ip_q) = is_rate_limited requests_per_minute (ip_requests s ip) current_time;
            s1 = s\<lparr>ip_requests := (ip_requests s)(ip := ip_q)\<rparr>
        in if ip_limited then
             (TooManyRequests 429 ''Too many requests. Please try again later.'' ''60'', s1)
           else
             let (user_limited, s2) =
                   (case user_id r of
                      None \<Rightarrow> (False, s1)
                    | Some u \<Rightarrow>
                        if u = [] then (False, s1)
                        else
                          let (limited, user_q) =
                                is_rate_limited requests_per_minute (user_requests s1 u) current_time
                          in (limited, s1\<lparr>user_requests := (user_requests s1)(u := user_q)\<rparr>))
             in if user_limited then
                  (TooManyRequests 429
                     ''Too many requests for this user. Please try again later.'' ''60'', s2)
                else
                  (Forwarded (Some
                     \<lparr>x_limit = requests_per_minute,
                      x_remaining = requests_per_minute - length (ip_requests s2 ip),
                      x_reset = py_int (current_time + window_size)\<rparr>), s2))"

text \<open>A sequence of requests handled one after the other: the responses, and the state left.\<close>

fun responses :: "nat \<Rightarrow> limiter_state \<Rightarrow> request list \<Rightarrow> response list" where
  "responses n s [] = []"
| "responses n s (r # rs) = fst (dispatch n s r) # responses n (snd (dispatch n s r)) rs"

fun final_state :: "nat \<Rightarrow> limiter_state \<Rightarrow> request list \<Rightarrow> limiter_state" where
  "final_state n s [] = s"
| "final_state n s (r # rs) = final_state n (snd (dispatch n s r)) rs"

text \<open>
  A request to a rate-limited path, for the examples; two tests on responses; and the two
  rejections by name.
\<close>

definition req :: "string \<Rightarrow> string option \<Rightarrow> real \<Rightarrow> request" where
  "req ip u t = \<lparr>path = ''/api/routes/calculate'', client_ip = ip, user_id = u, arrival = t\<rparr>"


fun rejected_429 :: "response \<Rightarrow> bool" where
  "rejected_429 (TooManyRequests status detail retry_after) = (status = 429 \<and> retry_after = ''60'')"
| "rejected_429 (Forwarded h) = False"

fun is_forwarded :: "response \<Rightarrow> bool" where
  "is_forwarded (Forwarded h) = True"
| "is_forwarded (TooManyRequests status detail retry_after) = False"

definition ip_limit_response :: response where
  "ip_limit_response = TooManyRequests 429 ''Too many requests. Please try again later.'' ''60''"

definition user_limit_response :: response where
  "user_limit_response =
     TooManyRequests 429 ''Too many requests for this user. Please try again later.'' ''60''"



definition purge_related :: "real \<Rightarrow> real list \<Rightarrow> real list \<Rightarrow> bool" where
  "purge_related t q1 q2 = (q1 = q2 \<or> (\<exists>tau\<le>t. q1 = clean_old_requests q2 tau))"

definition state_related :: "real \<Rightarrow> limiter_state \<Rightarrow> limiter_state \<Rightarrow> bool" where
  "state_related t s1 s2 =
     ((\<forall>k. purge_related t (ip_requests s1 k) (ip_requests s2 k))
      \<and> (\<forall>k. purge_related t (user_requests s1 k) (user_requests s2 k)))"


section \<open>Theorems\<close>

subsection \<open>Staleness levels\<close>

text \<open>
  C6. For every age in days the level is the highest threshold that the age meets or
  exceeds, and fresh below all of them: for fuel prices warning from 15 days, stale from
  30, critical from 60; for tolls warning from 90, stale from 180, critical from 365.
  In particular 30 days is stale, 29 is warning, 60 is critical and 14 is fresh for a fuel
  price, and 180/179/365/89 days give the same four levels for a toll.
\<close>

theorem staleness_level_thresholds:
  "get_staleness_level ''fuel_price'' d =
     (if 60 \<le> d then CRITICAL else if 30 \<le> d then STALE else if 15 \<le> d then WARNING else FRESH)
   \<and> get_staleness_level ''toll'' d =
     (if 365 \<le> d then CRITICAL else if 180 \<le> d then STALE else if 90 \<le> d then WARNING else FRESH)
   \<and> get_staleness_level ''fuel_price'' 30 = STALE
   \<and> get_staleness_level ''fuel_price'' 29 = WARNING
   \<and> get_staleness_level ''fuel_price'' 60 = CRITICAL
   \<and> get_staleness_level ''fuel_price'' 14 = FRESH
   \<and> get_staleness_level ''toll'' 180 = STALE
   \<and> get_staleness_level ''toll'' 179 = WARNING
   \<and> get_staleness_level ''toll'' 365 = CRITICAL
   \<and> get_staleness_level ''toll'' 89 = FRESH"
  by (simp add: get_staleness_level_def thresholds_def fuel_price_thresholds_def
      toll_thresholds_def)

theorem staleness_level_thresholds_witness:
  "get_staleness_level ''fuel_price'' 45 = STALE \<and> get_staleness_level ''toll'' 100 = WARNING"
  using staleness_level_thresholds [of 45] staleness_level_thresholds [of 100] by simp

subsection \<open>Permissions\<close>

lemma all_permissions_UNIV: "set all_permissions = UNIV"
proof -
  have "p \<in> set all_permissions" for p
    by (cases p) (simp_all add: all_permissions_def)
  then show ?thesis by blast
qed

lemma all_permissions_distinct: "distinct all_permissions"
  by (simp add: all_permissions_def)

lemma card_Permission: "card (UNIV :: Permission set) = 27"
proof -
  have "card (set all_permissions) = length all_permissions"
    using all_permissions_distinct by (rule distinct_card)
  then show ?thesis by (simp add: all_permissions_UNIV) (simp add: all_permissions_def)
qed

lemma admin_all: "admin_permissions = UNIV"
proof -
  have "admin_permissions = set all_permissions"
    by (simp add: admin_permissions_def all_permissions_def)
  then show ?thesis by (simp add: all_permissions_UNIV)
qed

text \<open>
  C3 (as amended). The enum defines 27 permissions (not 24). The admin role holds every
  one of them, and the operator role holds exactly twelve: read and update user, read
  company, the four vehicle permissions, calculate and read route, read fuel price, read
  toll and generate report; this is a strict subset of the admin's.
\<close>

theorem role_permissions_corrected:
  "card (UNIV :: Permission set) = 27
   \<and> length all_permissions = 27
   \<and> has_permission ADMIN p
   \<and> (has_permission OPERATOR p \<longleftrightarrow>
        p \<in> {READ_USER, UPDATE_USER, READ_COMPANY,
             CREATE_VEHICLE, READ_VEHICLE, UPDATE_VEHICLE, DELETE_VEHICLE,
             CALCULATE_ROUTE, READ_ROUTE, READ_FUEL_PRICE, READ_TOLL, GENERATE_REPORT})
   \<and> get_user_permissions OPERATOR \<subset> get_user_permissions ADMIN
   \<and> card (get_user_permissions OPERATOR) = 12"
proof -
  have a: "get_user_permissions ADMIN = UNIV"
    by (simp add: get_user_permissions_def ROLE_PERMISSIONS_def admin_all)
  have o: "get_user_permissions OPERATOR = operator_permissions"
    by (simp add: get_user_permissions_def ROLE_PERMISSIONS_def)
  have ne: "CREATE_USER \<notin> operator_permissions"
    by (simp add: operator_permissions_def)
  have sub: "operator_permissions \<subset> UNIV" using ne by blast
  have c12: "card operator_permissions = 12"
    by (simp add: operator_permissions_def)
  show ?thesis
    using a o sub c12 card_Permission
    by (simp add: has_permission_def all_permissions_def) (simp add: operator_permissions_def)
qed

text \<open>
  The count of 24 fails: the admin's set, which is the whole enum, has 27
  members.
\<close>

theorem role_permissions_counterexample:
  "card (get_user_permissions ADMIN) = 27 \<and> card (get_user_permissions ADMIN) \<noteq> 24
   \<and> length all_permissions \<noteq> 24"
proof -
  have a: "get_user_permissions ADMIN = UNIV"
    by (simp add: get_user_permissions_def ROLE_PERMISSIONS_def admin_all)
  show ?thesis using card_Permission by (simp add: a all_permissions_def)
qed

theorem role_permissions_corrected_witness:
  "has_permission ADMIN MANAGE_SYSTEM_DATA \<and> \<not> has_permission OPERATOR MANAGE_SYSTEM_DATA
   \<and> has_permission OPERATOR READ_TOLL"
  using role_permissions_corrected [of MANAGE_SYSTEM_DATA] role_permissions_corrected [of READ_TOLL]
  by simp


subsection \<open>Vehicle category\<close>

lemma py_in_sublist: "py_in sub s = sublist sub s"
  by (induction s) (auto simp: sublist_Cons_right)


lemma of_char_lower:
  "(of_char (py_lower_char c) :: nat) =
     (let n = (of_char c :: nat)
      in if (65 \<le> n \<and> n \<le> 90) \<or> (192 \<le> n \<and> n \<le> 222 \<and> n \<noteq> 215) then n + 32 else n)"
  by (auto simp: py_lower_char_def Let_def)

lemma lower_eq_iff:
  assumes "97 \<le> (of_char d :: nat)" "(of_char d :: nat) \<le> 122"
  shows "py_lower_char c = d \<longleftrightarrow> c = d \<or> c = ascii_upper d"
proof -
  define n :: nat where "n = of_char c"
  define m :: nat where "m = of_char d"
  define k :: nat where "k = of_char (py_lower_char c)"
  have k: "k = (if (65 \<le> n \<and> n \<le> 90) \<or> (192 \<le> n \<and> n \<le> 222 \<and> n \<noteq> 215) then n + 32 else n)"
    unfolding k_def n_def by (simp add: of_char_lower Let_def)
  have m: "97 \<le> m" "m \<le> 122" using assms by (simp_all add: m_def)
  have e1: "py_lower_char c = d \<longleftrightarrow> k = m"
    unfolding k_def m_def by (simp only: of_char_eq_iff)
  have "(of_char (ascii_upper d) :: nat) = m - 32"
    using m by (simp add: ascii_upper_def m_def)
  then have e2: "c = ascii_upper d \<longleftrightarrow> n = m - 32"
    unfolding n_def by (metis of_char_eq_iff)
  have e3: "c = d \<longleftrightarrow> n = m"
    unfolding n_def m_def by (simp only: of_char_eq_iff)
  have "k = m \<longleftrightarrow> n = m \<or> n = m - 32"
    using m unfolding k by auto
  then show ?thesis
    by (simp only: e1 e2 e3)
qed

lemma sublist_map_iff: "sublist w (map f s) \<longleftrightarrow> (\<exists>u. sublist u s \<and> map f u = w)"
proof
  assume "sublist w (map f s)"
  then obtain ps ss where "map f s = ps @ w @ ss" by (auto simp: sublist_def)
  then obtain a b c where "s = a @ b @ c" "map f b = w"
    by (metis map_eq_append_conv)
  then show "\<exists>u. sublist u s \<and> map f u = w" by (auto simp: sublist_def)
next
  assume "\<exists>u. sublist u s \<and> map f u = w"
  then obtain u ps ss where "s = ps @ u @ ss" "map f u = w" by (auto simp: sublist_def)
  then have "map f s = map f ps @ w @ map f ss" by simp
  then show "sublist w (map f s)" unfolding sublist_def by blast
qed

lemma map_lower_eq_iff:
  assumes "\<forall>d \<in> set pat. 97 \<le> (of_char d :: nat) \<and> (of_char d :: nat) \<le> 122"
  shows "map py_lower_char u = pat \<longleftrightarrow> list_all2 (\<lambda>c d. c = d \<or> c = ascii_upper d) u pat"
  using assms
proof (induction u arbitrary: pat)
  case Nil
  then show ?case by auto
next
  case (Cons c u)
  show ?case
  proof (cases pat)
    case Nil
    then show ?thesis by simp
  next
    case (Cons d ds)
    with Cons.prems have d: "97 \<le> (of_char d :: nat)" "(of_char d :: nat) \<le> 122"
      and ds: "\<forall>d \<in> set ds. 97 \<le> (of_char d :: nat) \<and> (of_char d :: nat) \<le> 122"
      by simp_all
    show ?thesis
      unfolding Cons using Cons.IH [OF ds] lower_eq_iff [OF d, of c] by simp
  qed
qed

lemma py_in_lower_iff:
  assumes "\<forall>d \<in> set pat. 97 \<le> (of_char d :: nat) \<and> (of_char d :: nat) \<le> 122"
  shows "py_in pat (py_lower s) \<longleftrightarrow> contains_ignoring_case pat s"
  unfolding py_in_sublist py_lower_def sublist_map_iff contains_ignoring_case_def
  using map_lower_eq_iff [OF assms] by simp

lemma moto_lower: "\<forall>d \<in> set ''moto''. 97 \<le> (of_char d :: nat) \<and> (of_char d :: nat) \<le> 122"
  by simp

lemma scooter_lower: "\<forall>d \<in> set ''scooter''. 97 \<le> (of_char d :: nat) \<and> (of_char d :: nat) \<le> 122"
  by simp

text \<open>
  C5. The category of a vehicle is truck exactly when \<^verbatim>\<open>max_weight\<close> is present and
  strictly above 3500 (so 3500 itself is not a truck, 3501 is); otherwise motorcycle
  exactly when the model name contains moto or scooter in any mix of cases; otherwise car.
\<close>

theorem vehicle_category_rule:
  "get_vehicle_category v =
     (if (\<exists>w. max_weight v = Some w \<and> w > 3500) then ''truck''
      else if contains_ignoring_case ''moto'' (model v)
              \<or> contains_ignoring_case ''scooter'' (model v) then ''motorcycle''
      else ''car'')
   \<and> get_vehicle_category \<lparr>model = ''Iveco Daily'', fuel_consumption = 12, fuel_type = DIESEL_500, max_weight = Some 3500\<rparr> = ''car''
   \<and> get_vehicle_category \<lparr>model = ''Iveco Daily'', fuel_consumption = 12, fuel_type = DIESEL_500, max_weight = Some 3501\<rparr> = ''truck''
   \<and> get_vehicle_category \<lparr>model = ''Honda MOTO 3'', fuel_consumption = 4, fuel_type = GASOLINE, max_weight = Some 3500\<rparr> = ''motorcycle''
   \<and> get_vehicle_category \<lparr>model = ''Vespa sCooTer'', fuel_consumption = 3, fuel_type = GASOLINE, max_weight = None\<rparr> = ''motorcycle''"
proof -
  have e1: "get_vehicle_category \<lparr>model = ''Iveco Daily'', fuel_consumption = 12, fuel_type = DIESEL_500, max_weight = Some 3500\<rparr> = ''car''"
    by code_simp
  have e2: "get_vehicle_category \<lparr>model = ''Iveco Daily'', fuel_consumption = 12, fuel_type = DIESEL_500, max_weight = Some 3501\<rparr> = ''truck''"
    by code_simp
  have e3: "get_vehicle_category \<lparr>model = ''Honda MOTO 3'', fuel_consumption = 4, fuel_type = GASOLINE, max_weight = Some 3500\<rparr> = ''motorcycle''"
    by code_simp
  have e4: "get_vehicle_category \<lparr>model = ''Vespa sCooTer'', fuel_consumption = 3, fuel_type = GASOLINE, max_weight = None\<rparr> = ''motorcycle''"
    by code_simp
  have t: "(case max_weight v of None \<Rightarrow> False | Some w \<Rightarrow> w \<noteq> 0 \<and> w > 3500)
           \<longleftrightarrow> (\<exists>w. max_weight v = Some w \<and> w > 3500)"
    by (cases "max_weight v") auto
  have g: "get_vehicle_category v =
     (if (\<exists>w. max_weight v = Some w \<and> w > 3500) then ''truck''
      else if contains_ignoring_case ''moto'' (model v)
              \<or> contains_ignoring_case ''scooter'' (model v) then ''motorcycle''
      else ''car'')"
    unfolding get_vehicle_category_def t
      py_in_lower_iff [OF moto_lower] py_in_lower_iff [OF scooter_lower] ..
  show ?thesis using g e1 e2 e3 e4 by blast
qed

theorem vehicle_category_rule_witness:
  "get_vehicle_category \<lparr>model = ''Moto'', fuel_consumption = 30, fuel_type = DIESEL_500, max_weight = Some 4000\<rparr> = ''truck''"
  using vehicle_category_rule [of "\<lparr>model = ''Moto'', fuel_consumption = 30, fuel_type = DIESEL_500, max_weight = Some 4000\<rparr>"] by simp

subsection \<open>Tax identifiers\<close>










lemma ex2: "validate_tax_id ''20123456786'' = Inr ''20-12345678-6''"
  by code_simp





subsection \<open>License plates\<close>

text \<open>
  C8. The examples of the specification hold: abc-123 and ABC123 both give ABC123, and AB12 is
  rejected. Idempotence fails: for ABC123, a line feed and a hyphen the function returns
  ABC123 followed by the line feed, and on that result it returns ABC123.
\<close>

theorem license_plate_not_idempotent:
  "validate_license_plate (''ABC123'' @ [CHR 0x0A, CHR ''-'']) = Inr (''ABC123'' @ [CHR 0x0A])
   \<and> validate_license_plate (''ABC123'' @ [CHR 0x0A]) = Inr ''ABC123''
   \<and> ''ABC123'' \<noteq> ''ABC123'' @ [CHR 0x0A]
   \<and> validate_license_plate ''abc-123'' = Inr ''ABC123''
   \<and> validate_license_plate ''ABC123'' = Inr ''ABC123''
   \<and> validate_license_plate ''AB12'' = Inl (HTTPException 400
         ''Invalid license plate format. Expected formats: ABC123, AB123CD, or 123ABC'')"
  by code_simp

subsection \<open>Fuel cost\<close>




subsection \<open>Recommended route and savings\<close>
















subsection \<open>Route analysis\<close>

lemma analyze_routes_empty:
  "analyze_routes [] criteria prefs = Inl (ValueError ''No routes provided for analysis'')"
  by (simp add: analyze_routes_def)

lemma mock_scores:
  "map (\<lambda>kv. total_score (snd kv))
     (score_routes mock_routes TOTAL_COST
        \<lparr>prioritize_cost = True, prioritize_time = False, avoid_tolls = False\<rparr>)
   = [1 / 3, 19 / 200, 19 / 20]"
  by (simp add: score_routes_def mock_routes_def mock_route_def py_min_def py_max_def
      py_min_index_def normalize_score_def calculate_weighted_score_def Let_def upt_rec)

lemma mock_best:
  "fst (select_recommended_route mock_routes
     (score_routes mock_routes TOTAL_COST
        \<lparr>prioritize_cost = True, prioritize_time = False, avoid_tolls = False\<rparr>)) = 1"
proof -
  have "py_min_index (\<lambda>kv. total_score (snd kv)) xs = py_min_index (\<lambda>x. x) (map (\<lambda>kv. total_score (snd kv)) xs)"
    for xs :: "(string \<times> route_score) list"
  proof -
    have "min_from (\<lambda>kv. total_score (snd kv)) b bk i ys
          = min_from (\<lambda>x. x) b bk i (map (\<lambda>kv. total_score (snd kv)) ys)"
      for b bk i and ys :: "(string \<times> route_score) list"
      by (induction ys arbitrary: b bk i) simp_all
    then show ?thesis by (cases xs) (simp_all add: py_min_index_def)
  qed
  then show ?thesis
    by (simp add: select_recommended_route_def Let_def mock_scores py_min_index_def)
qed

lemma analyze_routes_count:
  "analyze_routes rs criteria prefs = Inr s \<Longrightarrow> total_routes_analyzed s = length rs"
  by (auto simp: analyze_routes_def select_recommended_route_def Let_def
      split: if_splits sum.splits)

text \<open>
  C9. The empty list is rejected with the stated error. For the three routes of the
  repository's own test fixture (criteria total cost, cost prioritised) the analysis does not
  return a summary: the recommended route is the second one, its time trade-off against the
  first is 20 minutes, and the division of the savings by this float raises a type error.
\<close>

theorem analyze_routes_type_error:
  "analyze_routes mock_routes TOTAL_COST
     \<lparr>prioritize_cost = True, prioritize_time = False, avoid_tolls = False\<rparr> = Inl TypeError
   \<and> mock_routes \<noteq> []
   \<and> analyze_routes [] criteria prefs = Inl (ValueError ''No routes provided for analysis'')"
proof -
  let ?prefs = "\<lparr>prioritize_cost = True, prioritize_time = False, avoid_tolls = False\<rparr>"
  let ?scores = "score_routes mock_routes TOTAL_COST ?prefs"
  have sel: "select_recommended_route mock_routes ?scores
             = (1, mock_routes[1 := (mock_routes ! 1)\<lparr>route_type := ''recommended''\<rparr>])"
    using mock_best by (simp add: select_recommended_route_def Let_def)
  have sav: "analyze_savings (mock_routes[1 := (mock_routes ! 1)\<lparr>route_type := ''recommended''\<rparr>])
               ((mock_routes[1 := (mock_routes ! 1)\<lparr>route_type := ''recommended''\<rparr>]) ! 1)
             = Inl TypeError"
    by (simp add: analyze_savings_def mock_routes_def mock_route_def Let_def
        max_abs_or_one_def decimal_div_def)
  have ne: "mock_routes \<noteq> []" by (simp add: mock_routes_def)
  have "analyze_routes mock_routes TOTAL_COST ?prefs = Inl TypeError"
    by (simp only: analyze_routes_def ne if_False Let_def sel prod.case sav sum.case)
  then show ?thesis using ne analyze_routes_empty by simp
qed

subsection \<open>Rate limiting\<close>

lemma dispatch_excluded:
  "is_excluded (path r) \<Longrightarrow> dispatch n s r = (Forwarded None, s)"
  by (simp add: dispatch_def)

lemma dispatch_ip_limited:
  assumes "\<not> is_excluded (path r)"
    and "n \<le> length (clean_old_requests (ip_requests s (client_ip r)) (arrival r))"
  shows "dispatch n s r =
     (ip_limit_response,
      s\<lparr>ip_requests := (ip_requests s)
           (client_ip r := clean_old_requests (ip_requests s (client_ip r)) (arrival r))\<rparr>)"
  using assms by (simp add: dispatch_def is_rate_limited_def Let_def ip_limit_response_def)


















lemma dropWhile_dropWhile_weaker:
  assumes "\<And>x. Q x \<Longrightarrow> P x"
  shows "dropWhile P (dropWhile Q xs) = dropWhile P xs"
  using assms by (induction xs) auto

lemma clean_clean:
  "tau \<le> t \<Longrightarrow> clean_old_requests (clean_old_requests q tau) t = clean_old_requests q t"
  unfolding clean_old_requests_def by (rule dropWhile_dropWhile_weaker) simp

lemma related_clean:
  "purge_related t q1 q2 \<Longrightarrow> t \<le> t' \<Longrightarrow> clean_old_requests q1 t' = clean_old_requests q2 t'"
  unfolding purge_related_def using clean_clean by fastforce

lemma purge_related_mono: "purge_related t q1 q2 \<Longrightarrow> t \<le> t' \<Longrightarrow> purge_related t' q1 q2"
proof -
  assume a: "purge_related t q1 q2" and b: "t \<le> t'"
  from a show ?thesis
    unfolding purge_related_def
  proof
    assume "q1 = q2" then show "q1 = q2 \<or> (\<exists>tau\<le>t'. q1 = clean_old_requests q2 tau)" by simp
  next
    assume "\<exists>tau\<le>t. q1 = clean_old_requests q2 tau"
    then obtain tau where "tau \<le> t" "q1 = clean_old_requests q2 tau" by blast
    then have "tau \<le> t'" "q1 = clean_old_requests q2 tau" using b by simp_all
    then show "q1 = q2 \<or> (\<exists>tau\<le>t'. q1 = clean_old_requests q2 tau)" by blast
  qed
qed

lemma purge_related_refl: "purge_related t q q"
  by (simp add: purge_related_def)

lemma dispatch_related:
  assumes rel: "state_related t s1 s2" and t: "t \<le> arrival r"
  shows "fst (dispatch n s1 r) = fst (dispatch n s2 r)
         \<and> state_related (arrival r) (snd (dispatch n s1 r)) (snd (dispatch n s2 r))"
proof -
  have ip: "purge_related t (ip_requests s1 k) (ip_requests s2 k)"
    and us: "purge_related t (user_requests s1 k) (user_requests s2 k)" for k
    using rel by (simp_all add: state_related_def)
  have e1: "is_rate_limited n (ip_requests s1 k) (arrival r)
            = is_rate_limited n (ip_requests s2 k) (arrival r)" for k
    using related_clean [OF ip t] by (simp add: is_rate_limited_def)
  have e2: "is_rate_limited n (user_requests s1 k) (arrival r)
            = is_rate_limited n (user_requests s2 k) (arrival r)" for k
    using related_clean [OF us t] by (simp add: is_rate_limited_def)
  have m1: "purge_related (arrival r) (ip_requests s1 k) (ip_requests s2 k)" for k
    using purge_related_mono [OF ip t] .
  have m2: "purge_related (arrival r) (user_requests s1 k) (user_requests s2 k)" for k
    using purge_related_mono [OF us t] .
  show ?thesis
    using m1 m2
    by (auto simp: dispatch_def Let_def e1 e2 state_related_def purge_related_refl
        split: prod.splits option.splits)
qed

lemma responses_related:
  "state_related t s1 s2 \<Longrightarrow> sorted (t # map arrival rs)
   \<Longrightarrow> responses n s1 rs = responses n s2 rs"
proof (induction rs arbitrary: t s1 s2)
  case Nil
  then show ?case by simp
next
  case (Cons r rs)
  have t: "t \<le> arrival r" and srt: "sorted (arrival r # map arrival rs)"
    using Cons.prems(2) by simp_all
  from dispatch_related [OF Cons.prems(1) t, of n]
  have f: "fst (dispatch n s1 r) = fst (dispatch n s2 r)"
    and r: "state_related (arrival r) (snd (dispatch n s1 r)) (snd (dispatch n s2 r))"
    by simp_all
  show ?case using f Cons.IH [OF r srt] by simp
qed

lemma ip_limit_response_cases:
  assumes "fst (dispatch n s r) = ip_limit_response"
  shows "\<not> is_excluded (path r)
         \<and> n \<le> length (clean_old_requests (ip_requests s (client_ip r)) (arrival r))"
  using assms
  by (auto simp: dispatch_def is_rate_limited_def Let_def ip_limit_response_def
      split: if_splits option.splits prod.splits)

lemma ip_rejection_only_purges:
  assumes "fst (dispatch n s r) = ip_limit_response"
  shows "snd (dispatch n s r) =
         s\<lparr>ip_requests := (ip_requests s)
              (client_ip r := clean_old_requests (ip_requests s (client_ip r)) (arrival r))\<rparr>"
  using ip_limit_response_cases [OF assms] dispatch_ip_limited [of r n s] by simp

lemma ip_rejection_no_quota:
  assumes rej: "fst (dispatch n s r) = ip_limit_response"
    and srt: "sorted (arrival r # map arrival rs)"
  shows "responses n (snd (dispatch n s r)) rs = responses n s rs"
proof -
  have "state_related (arrival r) (snd (dispatch n s r)) s"
    unfolding ip_rejection_only_purges [OF rej]
    by (auto simp: state_related_def purge_related_def)
  then show ?thesis using srt by (rule responses_related)
qed

lemma user_rejection_state:
  assumes "fst (dispatch n s r) = user_limit_response"
  shows "\<exists>u. user_id r = Some u \<and> u \<noteq> []
           \<and> snd (dispatch n s r) =
               s\<lparr>ip_requests := (ip_requests s)
                    (client_ip r := clean_old_requests (ip_requests s (client_ip r)) (arrival r)
                                    @ [arrival r]),
                 user_requests := (user_requests s)
                    (u := clean_old_requests (user_requests s u) (arrival r))\<rparr>"
  using assms
  by (auto simp: dispatch_def is_rate_limited_def Let_def user_limit_response_def
      split: if_splits option.splits prod.splits)


lemmas limiter_eval =
  dispatch_def is_rate_limited_def clean_old_requests_def window_size_def is_excluded_def
  excluded_paths_def req_def initial_state_def Let_def ip_limit_response_def
  user_limit_response_def py_int_def




text \<open>
  C10 (as amended). A rejection never appends the time stamp to the queue of the identifier
  that is over its limit: that queue is only purged. When the limit of the client address
  rejects, this purge is the whole change of state, and with a clock that does not go back
  every later response is the same as if the rejected request had not been made. When the
  limit of the user rejects, the time stamp has already been appended to the queue of the
  client address.
\<close>

theorem rejection_state_change:
  "(fst (is_rate_limited n q t) \<longrightarrow> snd (is_rate_limited n q t) = clean_old_requests q t)
   \<and> (fst (dispatch n s r) = ip_limit_response \<longrightarrow>
        snd (dispatch n s r) =
          s\<lparr>ip_requests := (ip_requests s)
               (client_ip r := clean_old_requests (ip_requests s (client_ip r)) (arrival r))\<rparr>)
   \<and> (fst (dispatch n s r) = ip_limit_response \<and> sorted (arrival r # map arrival rs) \<longrightarrow>
        responses n (snd (dispatch n s r)) rs = responses n s rs)
   \<and> (fst (dispatch n s r) = user_limit_response \<longrightarrow>
        (\<exists>u. user_id r = Some u \<and> u \<noteq> []
           \<and> snd (dispatch n s r) =
               s\<lparr>ip_requests := (ip_requests s)
                    (client_ip r := clean_old_requests (ip_requests s (client_ip r)) (arrival r)
                                    @ [arrival r]),
                 user_requests := (user_requests s)
                    (u := clean_old_requests (user_requests s u) (arrival r))\<rparr>))
   \<and> (rejected_429 (fst (dispatch n s r)) \<longrightarrow>
        fst (dispatch n s r) = ip_limit_response \<or> fst (dispatch n s r) = user_limit_response)"
proof -
  have a: "fst (is_rate_limited n q t) \<longrightarrow> snd (is_rate_limited n q t) = clean_old_requests q t"
    by (simp add: is_rate_limited_def Let_def)
  have b: "fst (dispatch n s r) = ip_limit_response \<longrightarrow>
        snd (dispatch n s r) =
          s\<lparr>ip_requests := (ip_requests s)
               (client_ip r := clean_old_requests (ip_requests s (client_ip r)) (arrival r))\<rparr>"
    using ip_rejection_only_purges by blast
  have c: "fst (dispatch n s r) = ip_limit_response \<and> sorted (arrival r # map arrival rs) \<longrightarrow>
        responses n (snd (dispatch n s r)) rs = responses n s rs"
    using ip_rejection_no_quota by blast
  have d: "fst (dispatch n s r) = user_limit_response \<longrightarrow>
        (\<exists>u. user_id r = Some u \<and> u \<noteq> []
           \<and> snd (dispatch n s r) =
               s\<lparr>ip_requests := (ip_requests s)
                    (client_ip r := clean_old_requests (ip_requests s (client_ip r)) (arrival r)
                                    @ [arrival r]),
                 user_requests := (user_requests s)
                    (u := clean_old_requests (user_requests s u) (arrival r))\<rparr>)"
    using user_rejection_state by blast
  have e: "rejected_429 (fst (dispatch n s r)) \<longrightarrow>
        fst (dispatch n s r) = ip_limit_response \<or> fst (dispatch n s r) = user_limit_response"
    by (auto simp: dispatch_def is_rate_limited_def Let_def ip_limit_response_def
        user_limit_response_def split: if_splits option.splits prod.splits)
  show ?thesis using a b c d e by blast
qed

theorem rejection_state_change_witness:
  "fst (dispatch 1 \<lparr>ip_requests = (\<lambda>k. [0]), user_requests = (\<lambda>k. [])\<rparr>
          (req ''10.0.0.1'' None 10)) = ip_limit_response
   \<and> responses 1 (snd (dispatch 1 \<lparr>ip_requests = (\<lambda>k. [0]), user_requests = (\<lambda>k. [])\<rparr>
          (req ''10.0.0.1'' None 10))) [req ''10.0.0.1'' None 61]
     = responses 1 \<lparr>ip_requests = (\<lambda>k. [0]), user_requests = (\<lambda>k. [])\<rparr> [req ''10.0.0.1'' None 61]"
proof -
  have h: "fst (dispatch 1 \<lparr>ip_requests = (\<lambda>k. [0]), user_requests = (\<lambda>k. [])\<rparr>
          (req ''10.0.0.1'' None 10)) = ip_limit_response"
    by (simp add: limiter_eval)
  have srt: "sorted (arrival (req ''10.0.0.1'' None 10) # map arrival [req ''10.0.0.1'' None 61])"
    by (simp add: req_def)
  show ?thesis
    using rejection_state_change
      [where n = 1 and s = "\<lparr>ip_requests = (\<lambda>k. [0]), user_requests = (\<lambda>k. [])\<rparr>"
         and r = "req ''10.0.0.1'' None 10" and rs = "[req ''10.0.0.1'' None 61]"] h srt
    by blast
qed

text \<open>
  With limit 1: the second request, rejected for its user, leaves its time stamp in the
  queue of its address, and the third request, from that address, is rejected; without the
  second request it is passed on.
\<close>

theorem rejected_request_consumes_ip_quota:
  "map is_forwarded (responses 1 initial_state
      [req ''10.0.0.1'' (Some ''u'') 0, req ''10.0.0.2'' (Some ''u'') 1, req ''10.0.0.2'' None 2])
     = [True, False, False]
   \<and> map is_forwarded (responses 1 initial_state
      [req ''10.0.0.1'' (Some ''u'') 0, req ''10.0.0.2'' None 2])
     = [True, True]
   \<and> fst (dispatch 1 (final_state 1 initial_state [req ''10.0.0.1'' (Some ''u'') 0])
        (req ''10.0.0.2'' (Some ''u'') 1)) = user_limit_response
   \<and> ip_requests (final_state 1 initial_state
        [req ''10.0.0.1'' (Some ''u'') 0, req ''10.0.0.2'' (Some ''u'') 1]) ''10.0.0.2'' = [1]"
  by (simp add: limiter_eval)

end
